theory Spec2Isabelle
  imports Main "HOL-Library.Sublist"
begin

section \<open>Python values and the built-ins that type\_utils.py calls\<close>

text \<open>
  The functions of \<^verbatim>\<open>kfp/v2/dsl/type_utils.py\<close> are dynamically typed: two of them
  test \<^verbatim>\<open>isinstance(type_name, str)\<close>, one calls \<^verbatim>\<open>type_name.lower()\<close> unguarded.
  A value is one of the things a ComponentSpec type field can hold (a string, a list, a
  dict, or nothing), a number, or one of the two built-in values other than a string that
  have a \<^verbatim>\<open>lower\<close> method of their own, bytes and bytearray. Instances of user classes are
  outside this universe.

  A Python string is a sequence of code points; here it is a \<^typ>\<open>string\<close>, a code
  point outside ASCII being the bytes of its UTF-8 encoding, and \<^verbatim>\<open>str.lower\<close> maps
  the letters A to Z to a to z and leaves every other character alone. Python lower-cases
  letters outside ASCII as well, which turns no miss of a lookup into a hit and no hit
  into a miss: every key of both tables is made of the letters a to z other than k, and
  the only code point outside ASCII that Python lower-cases to ASCII letters alone is
  U+212A, to k (U+0130 becomes i followed by U+0307). \<^verbatim>\<open>bytes.lower\<close> and
  \<^verbatim>\<open>bytearray.lower\<close> lower-case the ASCII letters only.
\<close>

datatype pyval =
    PyNone
  | PyBool bool
  | PyInt int
  | PyStr string
  | PyBytes string
  | PyByteArray string
  | PyList "pyval list"
  | PyDict "(pyval \<times> pyval) list"

datatype error = AttributeError | TypeError

definition and_then :: "error + 'a \<Rightarrow> ('a \<Rightarrow> error + 'b) \<Rightarrow> error + 'b" where
  "and_then r f = (case r of Inl e \<Rightarrow> Inl e | Inr x \<Rightarrow> f x)"

definition lower_char :: "char \<Rightarrow> char" where
  "lower_char c =
     (let n = (of_char c :: nat) in if 65 \<le> n \<and> n \<le> 90 then char_of (n + 32) else c)"

definition upper_char :: "char \<Rightarrow> char" where
  "upper_char c =
     (let n = (of_char c :: nat) in if 97 \<le> n \<and> n \<le> 122 then char_of (n - 32) else c)"

definition lower :: "string \<Rightarrow> string" where
  "lower s = map lower_char s"

fun isinstance_str :: "pyval \<Rightarrow> bool" where
  "isinstance_str (PyStr s) = True"
| "isinstance_str v = False"

text \<open>
  \<^verbatim>\<open>v.lower()\<close>: a string, a bytes and a bytearray value each answer with a value of
  their own type; on any other value the attribute lookup raises AttributeError.
\<close>

fun call_lower :: "pyval \<Rightarrow> error + pyval" where
  "call_lower (PyStr s) = Inr (PyStr (lower s))"
| "call_lower (PyBytes b) = Inr (PyBytes (lower b))"
| "call_lower (PyByteArray b) = Inr (PyByteArray (lower b))"
| "call_lower v = Inl AttributeError"

text \<open>
  A dict literal with string keys, in the order it is written. Every dict operation
  hashes the key it is given first, which raises TypeError on a list, a dict and a
  bytearray; a key that is not a string equals none of the string keys.
\<close>

fun hashable :: "pyval \<Rightarrow> bool" where
  "hashable (PyList xs) = False"
| "hashable (PyDict kvs) = False"
| "hashable (PyByteArray b) = False"
| "hashable v = True"

definition dict_get :: "(string \<times> 'v) list \<Rightarrow> pyval \<Rightarrow> error + 'v option" where
  "dict_get d k =
     (if \<not> hashable k then Inl TypeError
      else Inr (case k of PyStr s \<Rightarrow> map_of d s | _ \<Rightarrow> None))"

definition dict_contains :: "(string \<times> 'v) list \<Rightarrow> pyval \<Rightarrow> error + bool" where
  "dict_contains d k = and_then (dict_get d k) (\<lambda>r. Inr (r \<noteq> None))"

definition dict_get_default :: "(string \<times> 'v) list \<Rightarrow> pyval \<Rightarrow> 'v \<Rightarrow> error + 'v" where
  "dict_get_default d k dflt =
     and_then (dict_get d k) (\<lambda>r. Inr (case r of None \<Rightarrow> dflt | Some v \<Rightarrow> v))"

subsection \<open>textwrap.dedent\<close>

text \<open>
  \<^verbatim>\<open>textwrap.dedent\<close> empties the lines made of spaces and tabs only, takes the longest
  common leading run of spaces and tabs of the remaining non-empty lines as the margin,
  and removes the margin from the start of every line that begins with it.
\<close>

definition newline :: char where
  "newline = CHR 0x0A"

definition is_ws :: "char \<Rightarrow> bool" where
  "is_ws c = (c = CHR '' '' \<or> c = CHR 0x09)"

fun split_lines :: "string \<Rightarrow> string list" where
  "split_lines [] = [[]]"
| "split_lines (c # cs) =
     (if c = newline then [] # split_lines cs
      else (case split_lines cs of [] \<Rightarrow> [[c]] | l # ls \<Rightarrow> (c # l) # ls))"

fun join_lines :: "string list \<Rightarrow> string" where
  "join_lines [] = []"
| "join_lines [l] = l"
| "join_lines (l # ls) = l @ [newline] @ join_lines ls"

definition dedent :: "string \<Rightarrow> string" where
  "dedent text =
     (let lines = map (\<lambda>l. if list_all is_ws l then [] else l) (split_lines text);
          indents = map (takeWhile is_ws) (filter (\<lambda>l. l \<noteq> []) lines);
          margin = (case indents of [] \<Rightarrow> [] | i # rest \<Rightarrow> foldl longest_common_prefix i rest)
      in join_lines (map (\<lambda>l. if prefix margin l then drop (length margin) l else l) lines))"

section \<open>The module\<close>

text \<open>
  Modelled from the spec: the primitive-type enumeration \<^verbatim>\<open>pipeline_spec_pb2.PrimitiveType\<close>
  is a collaborator that provides the named values INT, DOUBLE and STRING (\<open>INT\<close> alone is
  notation of HOL, so each constructor carries the name of the enumeration).
\<close>

datatype PrimitiveType = PrimitiveType_INT | PrimitiveType_DOUBLE | PrimitiveType_STRING

text \<open>
  Modelled from the spec: \<^verbatim>\<open>structures.InputSpec\<close> is a collaborator with a name and a
  type field. The name is a string; the type field holds whatever the component author
  wrote.
\<close>

record InputSpec =
  name :: string
  type :: pyval

text \<open>The module's two global dicts. A call receives them and hands them back.\<close>

record module_globals =
  ARTIFACT_TYPES_MAPPING :: "(string \<times> string) list"
  PARAMETER_TYPES_MAPPING :: "(string \<times> PrimitiveType) list"

definition schema_literal :: "string \<Rightarrow> string" where
  "schema_literal title =
     ''        title: '' @ title @ [newline] @
     ''        type: object'' @ [newline] @
     ''        properties:'' @ [newline] @
     ''    ''"

definition module_init :: module_globals where
  "module_init =
     \<lparr> ARTIFACT_TYPES_MAPPING =
         [ (''gcspath'', dedent (schema_literal ''kfp.Artifact'')),
           (''model'', dedent (schema_literal ''kfp.Model'')),
           (''dataset'', dedent (schema_literal ''kfp.Dataset'')),
           (''metrics'', dedent (schema_literal ''kfp.Metrics'')),
           (''schema'', dedent (schema_literal ''kfp.Schema'')) ],
       PARAMETER_TYPES_MAPPING =
         [ (''integer'', PrimitiveType_INT),
           (''int'', PrimitiveType_INT),
           (''double'', PrimitiveType_DOUBLE),
           (''float'', PrimitiveType_DOUBLE) ] \<rparr>"

type_synonym 'a call = "module_globals \<Rightarrow> (error + 'a) \<times> module_globals"

definition is_artifact_type :: "pyval \<Rightarrow> bool call" where
  "is_artifact_type type_name g =
     (if \<not> isinstance_str type_name then (Inr False, g)
      else (and_then (call_lower type_name) (dict_contains (ARTIFACT_TYPES_MAPPING g)), g))"

definition get_artifact_type_schema :: "pyval \<Rightarrow> string option call" where
  "get_artifact_type_schema type_name g =
     (and_then (call_lower type_name) (dict_get (ARTIFACT_TYPES_MAPPING g)), g)"

definition get_parameter_type :: "pyval \<Rightarrow> PrimitiveType call" where
  "get_parameter_type type_name g =
     (if \<not> isinstance_str type_name then (Inr PrimitiveType_STRING, g)
      else (and_then (call_lower type_name)
              (\<lambda>l. dict_get_default (PARAMETER_TYPES_MAPPING g) l PrimitiveType_STRING), g))"

fun get_input_artifact_type_schema :: "string \<Rightarrow> InputSpec list \<Rightarrow> string option call" where
  "get_input_artifact_type_schema input_name [] g = (Inr None, g)"
| "get_input_artifact_type_schema input_name (component_input # rest) g =
     (if name component_input = input_name
      then get_artifact_type_schema (type component_input) g
      else get_input_artifact_type_schema input_name rest g)"

subsection \<open>Calls in sequence\<close>

text \<open>
  A client of the module makes one call after another, each on the globals the previous
  call left behind.
\<close>

datatype invocation =
    Call_is_artifact_type pyval
  | Call_get_artifact_type_schema pyval
  | Call_get_parameter_type pyval
  | Call_get_input_artifact_type_schema string "InputSpec list"

datatype outcome =
    Raised error
  | Returned_bool bool
  | Returned_schema "string option"
  | Returned_primitive PrimitiveType

definition outcome_of :: "('a \<Rightarrow> outcome) \<Rightarrow> (error + 'a) \<times> module_globals \<Rightarrow> outcome \<times> module_globals" where
  "outcome_of wrap r = (case fst r of Inl e \<Rightarrow> Raised e | Inr x \<Rightarrow> wrap x, snd r)"

fun invoke :: "invocation \<Rightarrow> module_globals \<Rightarrow> outcome \<times> module_globals" where
  "invoke (Call_is_artifact_type v) g = outcome_of Returned_bool (is_artifact_type v g)"
| "invoke (Call_get_artifact_type_schema v) g =
     outcome_of Returned_schema (get_artifact_type_schema v g)"
| "invoke (Call_get_parameter_type v) g = outcome_of Returned_primitive (get_parameter_type v g)"
| "invoke (Call_get_input_artifact_type_schema n inputs) g =
     outcome_of Returned_schema (get_input_artifact_type_schema n inputs g)"

fun run_calls :: "invocation list \<Rightarrow> module_globals \<Rightarrow> outcome list \<times> module_globals" where
  "run_calls [] g = ([], g)"
| "run_calls (c # cs) g =
     (let (r, g') = invoke c g; (rs, g'') = run_calls cs g' in (r # rs, g''))"

subsection \<open>Vocabulary of the specification\<close>

text \<open>
  A casing of an alias: the same characters, each either as the alias has it or in upper
  case.
\<close>

definition casing_of :: "string \<Rightarrow> string \<Rightarrow> bool" where
  "casing_of key s = list_all2 (\<lambda>a c. c = a \<or> c = upper_char a) key s"

definition is_lower_letter :: "char \<Rightarrow> bool" where
  "is_lower_letter c = (97 \<le> (of_char c :: nat) \<and> (of_char c :: nat) \<le> 122)"

text \<open>The first Input Spec of a list that carries a given name, if there is one.\<close>

definition first_named :: "string \<Rightarrow> InputSpec list \<Rightarrow> InputSpec option" where
  "first_named input_name inputs = find (\<lambda>c. name c = input_name) inputs"

definition artifact_keys :: "string list" where
  "artifact_keys = map fst (ARTIFACT_TYPES_MAPPING module_init)"

definition parameter_keys :: "string list" where
  "parameter_keys = map fst (PARAMETER_TYPES_MAPPING module_init)"

definition schema_document :: "string \<Rightarrow> string" where
  "schema_document title =
     ''title: '' @ title @ [newline] @ ''type: object'' @ [newline] @ ''properties:'' @ [newline]"

text \<open>The three Input Specs of the specification's example.\<close>

definition example_inputs :: "InputSpec list" where
  "example_inputs =
     [ \<lparr> name = ''a'', type = PyStr ''Model'' \<rparr>,
       \<lparr> name = ''b'', type = PyStr ''Integer'' \<rparr>,
       \<lparr> name = ''a'', type = PyStr ''Dataset'' \<rparr> ]"

section \<open>Evaluating the tables\<close>

lemma dedent_schema_literal:
  "dedent (schema_literal ''kfp.Artifact'') = schema_document ''kfp.Artifact''"
  "dedent (schema_literal ''kfp.Model'') = schema_document ''kfp.Model''"
  "dedent (schema_literal ''kfp.Dataset'') = schema_document ''kfp.Dataset''"
  "dedent (schema_literal ''kfp.Metrics'') = schema_document ''kfp.Metrics''"
  "dedent (schema_literal ''kfp.Schema'') = schema_document ''kfp.Schema''"
  by (simp_all add: dedent_def schema_literal_def schema_document_def is_ws_def newline_def)

lemma artifact_table:
  "ARTIFACT_TYPES_MAPPING module_init =
     [ (''gcspath'', schema_document ''kfp.Artifact''),
       (''model'', schema_document ''kfp.Model''),
       (''dataset'', schema_document ''kfp.Dataset''),
       (''metrics'', schema_document ''kfp.Metrics''),
       (''schema'', schema_document ''kfp.Schema'') ]"
  by (simp add: module_init_def dedent_schema_literal)

lemma parameter_table:
  "PARAMETER_TYPES_MAPPING module_init =
     [ (''integer'', PrimitiveType_INT), (''int'', PrimitiveType_INT),
       (''double'', PrimitiveType_DOUBLE), (''float'', PrimitiveType_DOUBLE) ]"
  by (simp add: module_init_def)

lemma artifact_keys_eq:
  "artifact_keys = [''gcspath'', ''model'', ''dataset'', ''metrics'', ''schema'']"
  by (simp add: artifact_keys_def artifact_table)

lemma parameter_keys_eq: "parameter_keys = [''integer'', ''int'', ''double'', ''float'']"
  by (simp add: parameter_keys_def parameter_table)

section \<open>Lower case\<close>

lemma lower_char_of_lower_letter: "is_lower_letter a \<Longrightarrow> lower_char a = a"
  by (simp add: is_lower_letter_def lower_char_def)

lemma lower_char_upper_char: "is_lower_letter a \<Longrightarrow> lower_char (upper_char a) = a"
proof -
  assume a: "is_lower_letter a"
  let ?n = "of_char a :: nat"
  from a have bounds: "97 \<le> ?n" "?n \<le> 122"
    by (simp_all add: is_lower_letter_def)
  then have up: "(of_char (upper_char a) :: nat) = ?n - 32"
    by (simp add: upper_char_def)
  from bounds have undo32: "?n - 32 + 32 = ?n"
    by simp
  from bounds have "65 \<le> ?n - 32" "?n - 32 \<le> 90"
    by simp_all
  then have "lower_char (upper_char a) = char_of (?n - 32 + 32)"
    by (simp add: lower_char_def up)
  also have "\<dots> = a"
    by (simp only: undo32 char_of_char)
  finally show ?thesis .
qed

lemma lower_casing_of:
  "casing_of key s \<Longrightarrow> list_all is_lower_letter key \<Longrightarrow> lower s = key"
  unfolding casing_of_def lower_def
  by (induction key s rule: list_all2_induct)
     (auto simp: lower_char_of_lower_letter lower_char_upper_char)

lemma lower_lower_letters: "list_all is_lower_letter k \<Longrightarrow> lower k = k"
  unfolding lower_def
  by (induction k) (auto simp: lower_char_of_lower_letter)

lemma artifact_keys_lower_letters: "\<forall>k \<in> set artifact_keys. list_all is_lower_letter k"
  by (simp add: artifact_keys_eq is_lower_letter_def)

lemma parameter_keys_lower_letters: "\<forall>k \<in> set parameter_keys. list_all is_lower_letter k"
  by (simp add: parameter_keys_eq is_lower_letter_def)

section \<open>What each call returns\<close>

lemma map_of_hit: "(map_of d k \<noteq> None) = (k \<in> set (map fst d))"
  by (simp add: map_of_eq_None_iff)

lemma is_artifact_type_str:
  "is_artifact_type (PyStr s) g = (Inr (lower s \<in> set (map fst (ARTIFACT_TYPES_MAPPING g))), g)"
proof -
  have "is_artifact_type (PyStr s) g =
          (Inr (map_of (ARTIFACT_TYPES_MAPPING g) (lower s) \<noteq> None), g)"
    by (simp add: is_artifact_type_def dict_contains_def dict_get_def and_then_def)
  then show ?thesis
    by (simp only: map_of_hit)
qed

lemma get_artifact_type_schema_str:
  "get_artifact_type_schema (PyStr s) g = (Inr (map_of (ARTIFACT_TYPES_MAPPING g) (lower s)), g)"
  by (simp add: get_artifact_type_schema_def dict_get_def and_then_def)

lemma get_parameter_type_str:
  "get_parameter_type (PyStr s) g =
     (Inr (case map_of (PARAMETER_TYPES_MAPPING g) (lower s) of
             None \<Rightarrow> PrimitiveType_STRING | Some p \<Rightarrow> p), g)"
  by (simp add: get_parameter_type_def dict_get_default_def dict_get_def and_then_def)

lemma not_str_cases:
  "(\<forall>s. v \<noteq> PyStr s) \<longleftrightarrow> \<not> isinstance_str v"
  by (cases v) simp_all






lemma scan_first_named:
  "get_input_artifact_type_schema input_name inputs g =
     (case first_named input_name inputs of
        None \<Rightarrow> (Inr None, g)
      | Some c \<Rightarrow> get_artifact_type_schema (type c) g)"
  by (induction inputs) (simp_all add: first_named_def)

lemma snd_is_artifact_type: "snd (is_artifact_type v g) = g"
  by (simp add: is_artifact_type_def)

lemma snd_get_artifact_type_schema: "snd (get_artifact_type_schema v g) = g"
  by (simp add: get_artifact_type_schema_def)

lemma snd_get_parameter_type: "snd (get_parameter_type v g) = g"
  by (simp add: get_parameter_type_def)

lemma snd_get_input_artifact_type_schema: "snd (get_input_artifact_type_schema n inputs g) = g"
  by (induction inputs) (simp_all add: snd_get_artifact_type_schema)

lemma snd_invoke: "snd (invoke c g) = g"
  by (cases c)
     (simp_all add: outcome_of_def snd_is_artifact_type snd_get_artifact_type_schema
        snd_get_parameter_type snd_get_input_artifact_type_schema)

lemma run_calls_map: "run_calls cs g = (map (\<lambda>c. fst (invoke c g)) cs, g)"
proof (induction cs)
  case Nil
  show ?case by simp
next
  case (Cons c cs)
  obtain r where r: "invoke c g = (r, g)"
    using snd_invoke [of c g] by (cases "invoke c g") simp
  with Cons show ?case
    by simp
qed

lemma lower_examples:
  "lower ''Model'' = ''model''" "lower ''MODEL'' = ''model''" "lower ''model'' = ''model''"
  "lower ''Dataset'' = ''dataset''" "lower ''Integer'' = ''integer''"
  "lower ''nonexistent_type'' = ''nonexistent_type''" "lower ''boolean'' = ''boolean''"
  "lower ''integer'' = ''integer''" "lower ''int'' = ''int''"
  "lower ''float'' = ''float''" "lower ''double'' = ''double''"
  "lower ''INT'' = ''int''" "lower ''Float'' = ''float''" "lower ''Boolean'' = ''boolean''"
  by code_simp+

section \<open>Properties of the four operations\<close>

text \<open>
  C1. get\_input\_artifact\_type\_schema scans the Input Specs in order: its result is that of
  get\_artifact\_type\_schema on the type of the first Input Spec whose name equals
  input\_name, and None when no Input Spec of the list has that name. On the three Input
  Specs a (Model), b (Integer), a (Dataset), looking up a gives the Model schema and
  looking up c gives None.
\<close>

theorem get_input_artifact_type_schema_first_match:
  "(\<forall>input_name inputs g.
      get_input_artifact_type_schema input_name inputs g =
        (case first_named input_name inputs of
           None \<Rightarrow> (Inr None, g)
         | Some c \<Rightarrow> get_artifact_type_schema (type c) g))
   \<and> (\<forall>input_name (inputs :: InputSpec list) g.
        (\<forall>c \<in> set inputs. name c \<noteq> input_name) \<longrightarrow>
        get_input_artifact_type_schema input_name inputs g = (Inr None, g))
   \<and> (\<forall>input_name (pre :: InputSpec list) c post g.
        (\<forall>p \<in> set pre. name p \<noteq> input_name) \<and> name c = input_name \<longrightarrow>
        get_input_artifact_type_schema input_name (pre @ c # post) g =
          get_artifact_type_schema (type c) g)
   \<and> fst (get_input_artifact_type_schema ''a'' example_inputs module_init) =
        Inr (Some (schema_document ''kfp.Model''))
   \<and> fst (get_input_artifact_type_schema ''a'' example_inputs module_init) =
        fst (get_artifact_type_schema (PyStr ''Model'') module_init)
   \<and> fst (get_input_artifact_type_schema ''c'' example_inputs module_init) = Inr None"
proof (intro conjI allI impI)
  fix input_name inputs g
  show "get_input_artifact_type_schema input_name inputs g =
          (case first_named input_name inputs of
             None \<Rightarrow> (Inr None, g)
           | Some c \<Rightarrow> get_artifact_type_schema (type c) g)"
    by (rule scan_first_named)
next
  fix input_name and inputs :: "InputSpec list" and g
  assume "\<forall>c \<in> set inputs. name c \<noteq> input_name"
  then show "get_input_artifact_type_schema input_name inputs g = (Inr None, g)"
    by (induction inputs) simp_all
next
  fix input_name and pre :: "InputSpec list" and c :: InputSpec and post g
  assume "(\<forall>p \<in> set pre. name p \<noteq> input_name) \<and> name c = input_name"
  then show "get_input_artifact_type_schema input_name (pre @ c # post) g =
               get_artifact_type_schema (type c) g"
    by (induction pre) simp_all
next
  show "fst (get_input_artifact_type_schema ''a'' example_inputs module_init) =
          Inr (Some (schema_document ''kfp.Model''))"
    by (simp add: example_inputs_def get_artifact_type_schema_str lower_examples artifact_table)
next
  show "fst (get_input_artifact_type_schema ''a'' example_inputs module_init) =
          fst (get_artifact_type_schema (PyStr ''Model'') module_init)"
    by (simp add: example_inputs_def)
next
  show "fst (get_input_artifact_type_schema ''c'' example_inputs module_init) = Inr None"
    by (simp add: example_inputs_def)
qed

theorem get_input_artifact_type_schema_first_match_witness:
  "map name example_inputs = [''a'', ''b'', ''a'']
   \<and> get_input_artifact_type_schema ''c'' example_inputs module_init = (Inr None, module_init)
   \<and> get_input_artifact_type_schema ''a''
        ([\<lparr> name = ''b'', type = PyStr ''Integer'' \<rparr>] @
         \<lparr> name = ''a'', type = PyStr ''Dataset'' \<rparr> # [\<lparr> name = ''a'', type = PyStr ''Model'' \<rparr>])
        module_init =
       (Inr (Some (schema_document ''kfp.Dataset'')), module_init)"
proof -
  have none: "\<forall>c \<in> set example_inputs. name c \<noteq> ''c''"
    by (simp add: example_inputs_def)
  have pre: "(\<forall>p \<in> set [\<lparr> name = ''b'', type = PyStr ''Integer'' \<rparr>]. name p \<noteq> ''a'')
             \<and> name \<lparr> name = ''a'', type = PyStr ''Dataset'' \<rparr> = ''a''"
    by simp
  note main = get_input_artifact_type_schema_first_match
  from none main [THEN conjunct2, THEN conjunct1, rule_format, of example_inputs "''c''" module_init]
  have a: "get_input_artifact_type_schema ''c'' example_inputs module_init = (Inr None, module_init)"
    by simp
  from main [THEN conjunct2, THEN conjunct2, THEN conjunct1, rule_format, OF pre,
      of "[\<lparr> name = ''a'', type = PyStr ''Model'' \<rparr>]" module_init]
  have b: "get_input_artifact_type_schema ''a''
        ([\<lparr> name = ''b'', type = PyStr ''Integer'' \<rparr>] @
         \<lparr> name = ''a'', type = PyStr ''Dataset'' \<rparr> # [\<lparr> name = ''a'', type = PyStr ''Model'' \<rparr>])
        module_init =
       (Inr (Some (schema_document ''kfp.Dataset'')), module_init)"
    by (simp add: get_artifact_type_schema_str lower_examples artifact_table)
  have names: "map name example_inputs = [''a'', ''b'', ''a'']"
    by (simp add: example_inputs_def)
  from names a b show ?thesis
    by (intro conjI)
qed

text \<open>
  C2. get\_parameter\_type is a table lookup on the lower-cased string: integer and int give
  INT, float and double give DOUBLE, in every casing (INT, Integer, Float, DOUBLE), and
  every string whose lower-cased form is not a key of the Parameter Type Table (boolean,
  for one) gives the STRING default, not an error.
\<close>

theorem get_parameter_type_aliases:
  "(\<forall>s. get_parameter_type (PyStr s) module_init =
          (Inr (case map_of (PARAMETER_TYPES_MAPPING module_init) (lower s) of
                  None \<Rightarrow> PrimitiveType_STRING | Some p \<Rightarrow> p), module_init))
   \<and> PARAMETER_TYPES_MAPPING module_init =
        [ (''integer'', PrimitiveType_INT), (''int'', PrimitiveType_INT),
          (''double'', PrimitiveType_DOUBLE), (''float'', PrimitiveType_DOUBLE) ]
   \<and> fst (get_parameter_type (PyStr ''integer'') module_init) = Inr PrimitiveType_INT
   \<and> fst (get_parameter_type (PyStr ''int'') module_init) = Inr PrimitiveType_INT
   \<and> fst (get_parameter_type (PyStr ''float'') module_init) = Inr PrimitiveType_DOUBLE
   \<and> fst (get_parameter_type (PyStr ''double'') module_init) = Inr PrimitiveType_DOUBLE
   \<and> (\<forall>s. lower s \<notin> set parameter_keys \<longrightarrow>
          get_parameter_type (PyStr s) module_init = (Inr PrimitiveType_STRING, module_init))
   \<and> fst (get_parameter_type (PyStr ''boolean'') module_init) = Inr PrimitiveType_STRING
   \<and> (\<forall>k \<in> set parameter_keys. \<forall>s. casing_of k s \<longrightarrow>
          get_parameter_type (PyStr s) module_init = get_parameter_type (PyStr k) module_init
        \<and> fst (get_parameter_type (PyStr s) module_init) \<noteq> Inr PrimitiveType_STRING)
   \<and> fst (get_parameter_type (PyStr ''INT'') module_init) = Inr PrimitiveType_INT
   \<and> fst (get_parameter_type (PyStr ''Integer'') module_init) = Inr PrimitiveType_INT
   \<and> fst (get_parameter_type (PyStr ''Float'') module_init) = Inr PrimitiveType_DOUBLE
   \<and> fst (get_parameter_type (PyStr ''DOUBLE'') module_init) = Inr PrimitiveType_DOUBLE"
proof (intro conjI allI ballI impI)
  fix s
  show "get_parameter_type (PyStr s) module_init =
          (Inr (case map_of (PARAMETER_TYPES_MAPPING module_init) (lower s) of
                  None \<Rightarrow> PrimitiveType_STRING | Some p \<Rightarrow> p), module_init)"
    by (rule get_parameter_type_str)
next
  show "PARAMETER_TYPES_MAPPING module_init =
        [ (''integer'', PrimitiveType_INT), (''int'', PrimitiveType_INT),
          (''double'', PrimitiveType_DOUBLE), (''float'', PrimitiveType_DOUBLE) ]"
    by (rule parameter_table)
next
  show "fst (get_parameter_type (PyStr ''integer'') module_init) = Inr PrimitiveType_INT"
    by (simp add: get_parameter_type_str lower_examples parameter_table)
next
  show "fst (get_parameter_type (PyStr ''int'') module_init) = Inr PrimitiveType_INT"
    by (simp add: get_parameter_type_str lower_examples parameter_table)
next
  show "fst (get_parameter_type (PyStr ''float'') module_init) = Inr PrimitiveType_DOUBLE"
    by (simp add: get_parameter_type_str lower_examples parameter_table)
next
  show "fst (get_parameter_type (PyStr ''double'') module_init) = Inr PrimitiveType_DOUBLE"
    by (simp add: get_parameter_type_str lower_examples parameter_table)
next
  fix s
  assume "lower s \<notin> set parameter_keys"
  then have "map_of (PARAMETER_TYPES_MAPPING module_init) (lower s) = None"
    by (simp add: parameter_keys_def map_of_eq_None_iff)
  then show "get_parameter_type (PyStr s) module_init = (Inr PrimitiveType_STRING, module_init)"
    by (simp add: get_parameter_type_str)
next
  show "fst (get_parameter_type (PyStr ''boolean'') module_init) = Inr PrimitiveType_STRING"
    by (simp add: get_parameter_type_str lower_examples parameter_table)
next
  fix k s
  assume k: "k \<in> set parameter_keys" and c: "casing_of k s"
  from k parameter_keys_lower_letters have letters: "list_all is_lower_letter k"
    by simp
  with c have s: "lower s = k"
    by (rule lower_casing_of)
  from letters have kk: "lower k = k"
    by (rule lower_lower_letters)
  from s kk show "get_parameter_type (PyStr s) module_init =
                    get_parameter_type (PyStr k) module_init"
    by (simp add: get_parameter_type_str)
  from k have "k = ''integer'' \<or> k = ''int'' \<or> k = ''double'' \<or> k = ''float''"
    by (simp add: parameter_keys_eq)
  with s show "fst (get_parameter_type (PyStr s) module_init) \<noteq> Inr PrimitiveType_STRING"
    by (auto simp: get_parameter_type_str parameter_table)
next
  have "lower ''INT'' = ''int''"
    by code_simp
  then show "fst (get_parameter_type (PyStr ''INT'') module_init) = Inr PrimitiveType_INT"
    by (simp add: get_parameter_type_str parameter_table)
next
  show "fst (get_parameter_type (PyStr ''Integer'') module_init) = Inr PrimitiveType_INT"
    by (simp add: get_parameter_type_str lower_examples parameter_table)
next
  show "fst (get_parameter_type (PyStr ''Float'') module_init) = Inr PrimitiveType_DOUBLE"
    by (simp add: get_parameter_type_str lower_examples parameter_table)
next
  have "lower ''DOUBLE'' = ''double''"
    by code_simp
  then show "fst (get_parameter_type (PyStr ''DOUBLE'') module_init) = Inr PrimitiveType_DOUBLE"
    by (simp add: get_parameter_type_str parameter_table)
qed

theorem get_parameter_type_aliases_witness:
  "lower ''Boolean'' \<notin> set parameter_keys
   \<and> get_parameter_type (PyStr ''Boolean'') module_init = (Inr PrimitiveType_STRING, module_init)
   \<and> ''int'' \<in> set parameter_keys \<and> casing_of ''int'' ''INT''
   \<and> get_parameter_type (PyStr ''INT'') module_init = (Inr PrimitiveType_INT, module_init)
   \<and> ''float'' \<in> set parameter_keys \<and> casing_of ''float'' ''Float''
   \<and> get_parameter_type (PyStr ''Float'') module_init = (Inr PrimitiveType_DOUBLE, module_init)"
proof -
  have miss: "lower ''Boolean'' \<notin> set parameter_keys"
    by (simp add: lower_examples parameter_keys_eq)
  have k1: "''int'' \<in> set parameter_keys" and k2: "''float'' \<in> set parameter_keys"
    by (simp_all add: parameter_keys_eq)
  have c1: "casing_of ''int'' ''INT''"
    by code_simp
  have c2: "casing_of ''float'' ''Float''"
    by code_simp
  note main = get_parameter_type_aliases
  note default = main [THEN conjunct2, THEN conjunct2, THEN conjunct2, THEN conjunct2,
      THEN conjunct2, THEN conjunct2, THEN conjunct1, rule_format, OF miss]
  note casing = main [THEN conjunct2, THEN conjunct2, THEN conjunct2, THEN conjunct2,
      THEN conjunct2, THEN conjunct2, THEN conjunct2, THEN conjunct2, THEN conjunct1,
      rule_format]
  have low: "get_parameter_type (PyStr ''int'') module_init = (Inr PrimitiveType_INT, module_init)"
    "get_parameter_type (PyStr ''float'') module_init = (Inr PrimitiveType_DOUBLE, module_init)"
    by (simp_all add: get_parameter_type_str lower_examples parameter_table)
  from casing [OF k1 c1, THEN conjunct1] low
  have up1: "get_parameter_type (PyStr ''INT'') module_init = (Inr PrimitiveType_INT, module_init)"
    by simp
  from casing [OF k2 c2, THEN conjunct1] low
  have up2: "get_parameter_type (PyStr ''Float'') module_init =
               (Inr PrimitiveType_DOUBLE, module_init)"
    by simp
  from miss default k1 c1 up1 k2 c2 up2 show ?thesis
    by (intro conjI)
qed

text \<open>
  C3. For each of the five keys of the Artifact Type Table (gcspath for the generic
  artifact, model, dataset, metrics, schema), is\_artifact\_type is true on every casing of
  the key. For every string, is\_artifact\_type is membership of the lower-cased string in
  the table, whose keys are exactly these five, each in lower case.
\<close>

theorem is_artifact_type_any_casing:
  "(\<forall>s. is_artifact_type (PyStr s) module_init = (Inr (lower s \<in> set artifact_keys), module_init))
   \<and> artifact_keys = [''gcspath'', ''model'', ''dataset'', ''metrics'', ''schema'']
   \<and> distinct artifact_keys \<and> length artifact_keys = 5
   \<and> (\<forall>k \<in> set artifact_keys. lower k = k)
   \<and> (\<forall>k \<in> set artifact_keys. \<forall>s. casing_of k s \<longrightarrow>
          fst (is_artifact_type (PyStr s) module_init) = Inr True)"
proof (intro conjI allI ballI impI)
  fix s
  show "is_artifact_type (PyStr s) module_init = (Inr (lower s \<in> set artifact_keys), module_init)"
    by (simp add: is_artifact_type_str artifact_keys_def)
next
  show "artifact_keys = [''gcspath'', ''model'', ''dataset'', ''metrics'', ''schema'']"
    by (rule artifact_keys_eq)
next
  show "distinct artifact_keys"
    by (simp add: artifact_keys_eq)
next
  show "length artifact_keys = 5"
    by (simp add: artifact_keys_eq)
next
  fix k
  assume "k \<in> set artifact_keys"
  with artifact_keys_lower_letters show "lower k = k"
    by (simp add: lower_lower_letters)
next
  fix k s
  assume k: "k \<in> set artifact_keys" and c: "casing_of k s"
  from k artifact_keys_lower_letters have "list_all is_lower_letter k"
    by simp
  with c have "lower s = k"
    by (rule lower_casing_of)
  with k show "fst (is_artifact_type (PyStr s) module_init) = Inr True"
    by (simp add: is_artifact_type_str artifact_keys_def)
qed

theorem is_artifact_type_any_casing_witness:
  "''model'' \<in> set artifact_keys
   \<and> casing_of ''model'' ''Model'' \<and> fst (is_artifact_type (PyStr ''Model'') module_init) = Inr True
   \<and> casing_of ''model'' ''MODEL'' \<and> fst (is_artifact_type (PyStr ''MODEL'') module_init) = Inr True
   \<and> casing_of ''model'' ''model'' \<and> fst (is_artifact_type (PyStr ''model'') module_init) = Inr True
   \<and> lower ''model'' = ''model''"
proof -
  have k: "''model'' \<in> set artifact_keys"
    by (simp add: artifact_keys_eq)
  have c1: "casing_of ''model'' ''Model''"
    by code_simp
  have c2: "casing_of ''model'' ''MODEL''"
    by code_simp
  have c3: "casing_of ''model'' ''model''"
    by code_simp
  note main = is_artifact_type_any_casing
  note low = main [THEN conjunct2, THEN conjunct2, THEN conjunct2, THEN conjunct2,
      THEN conjunct1, rule_format, OF k]
  note cas = main [THEN conjunct2, THEN conjunct2, THEN conjunct2, THEN conjunct2,
      THEN conjunct2, rule_format, OF k]
  from k c1 c2 c3 low cas [OF c1] cas [OF c2] cas [OF c3] show ?thesis
    by simp
qed

text \<open>
  C4. On a string, get\_artifact\_type\_schema lower-cases it and looks it up in the Artifact
  Type Table: the schema document stored under the lower-cased name when that is a key,
  None otherwise. model and MODEL give the same document, which contains the title marker
  kfp.Model; nonexistent\_type gives None, not an error.
\<close>

theorem get_artifact_type_schema_lookup:
  "(\<forall>s. get_artifact_type_schema (PyStr s) module_init =
          (Inr (map_of (ARTIFACT_TYPES_MAPPING module_init) (lower s)), module_init))
   \<and> (\<forall>s. lower s \<in> set artifact_keys \<longrightarrow>
          (\<exists>doc. (lower s, doc) \<in> set (ARTIFACT_TYPES_MAPPING module_init)
             \<and> fst (get_artifact_type_schema (PyStr s) module_init) = Inr (Some doc)))
   \<and> (\<forall>s. lower s \<notin> set artifact_keys \<longrightarrow>
          fst (get_artifact_type_schema (PyStr s) module_init) = Inr None)
   \<and> fst (get_artifact_type_schema (PyStr ''model'') module_init) =
        Inr (Some (schema_document ''kfp.Model''))
   \<and> fst (get_artifact_type_schema (PyStr ''MODEL'') module_init) =
        fst (get_artifact_type_schema (PyStr ''model'') module_init)
   \<and> sublist ''kfp.Model'' (schema_document ''kfp.Model'')
   \<and> fst (get_artifact_type_schema (PyStr ''nonexistent_type'') module_init) = Inr None"
proof (intro conjI allI impI)
  fix s
  show "get_artifact_type_schema (PyStr s) module_init =
          (Inr (map_of (ARTIFACT_TYPES_MAPPING module_init) (lower s)), module_init)"
    by (rule get_artifact_type_schema_str)
next
  fix s
  assume "lower s \<in> set artifact_keys"
  then have "lower s \<in> fst ` set (ARTIFACT_TYPES_MAPPING module_init)"
    by (simp add: artifact_keys_def)
  then have "map_of (ARTIFACT_TYPES_MAPPING module_init) (lower s) \<noteq> None"
    by (simp add: map_of_eq_None_iff)
  then obtain doc where "map_of (ARTIFACT_TYPES_MAPPING module_init) (lower s) = Some doc"
    by blast
  then have "(lower s, doc) \<in> set (ARTIFACT_TYPES_MAPPING module_init)
               \<and> fst (get_artifact_type_schema (PyStr s) module_init) = Inr (Some doc)"
    by (simp add: get_artifact_type_schema_str map_of_SomeD)
  then show "\<exists>doc. (lower s, doc) \<in> set (ARTIFACT_TYPES_MAPPING module_init)
               \<and> fst (get_artifact_type_schema (PyStr s) module_init) = Inr (Some doc)"
    by (rule exI)
next
  fix s
  assume "lower s \<notin> set artifact_keys"
  then have "map_of (ARTIFACT_TYPES_MAPPING module_init) (lower s) = None"
    by (simp add: artifact_keys_def map_of_eq_None_iff)
  then show "fst (get_artifact_type_schema (PyStr s) module_init) = Inr None"
    by (simp add: get_artifact_type_schema_str)
next
  show "fst (get_artifact_type_schema (PyStr ''model'') module_init) =
          Inr (Some (schema_document ''kfp.Model''))"
    by (simp add: get_artifact_type_schema_str lower_examples artifact_table)
next
  show "fst (get_artifact_type_schema (PyStr ''MODEL'') module_init) =
          fst (get_artifact_type_schema (PyStr ''model'') module_init)"
    by (simp add: get_artifact_type_schema_str lower_examples)
next
  show "sublist ''kfp.Model'' (schema_document ''kfp.Model'')"
    unfolding schema_document_def by (rule sublist_appendI)
next
  show "fst (get_artifact_type_schema (PyStr ''nonexistent_type'') module_init) = Inr None"
    by (simp add: get_artifact_type_schema_str lower_examples artifact_table)
qed

theorem get_artifact_type_schema_lookup_witness:
  "lower ''Dataset'' \<in> set artifact_keys
   \<and> (\<exists>doc. (lower ''Dataset'', doc) \<in> set (ARTIFACT_TYPES_MAPPING module_init)
         \<and> fst (get_artifact_type_schema (PyStr ''Dataset'') module_init) = Inr (Some doc))
   \<and> lower ''Integer'' \<notin> set artifact_keys
   \<and> fst (get_artifact_type_schema (PyStr ''Integer'') module_init) = Inr None"
proof -
  have hit: "lower ''Dataset'' \<in> set artifact_keys"
    by (simp add: lower_examples artifact_keys_eq)
  have miss: "lower ''Integer'' \<notin> set artifact_keys"
    by (simp add: lower_examples artifact_keys_eq)
  note main = get_artifact_type_schema_lookup
  from hit miss
    main [THEN conjunct2, THEN conjunct1, rule_format, OF hit]
    main [THEN conjunct2, THEN conjunct2, THEN conjunct1, rule_format, OF miss]
  show ?thesis
    by (intro conjI)
qed

text \<open>
  C5. On every input that is not a string (a number, None, a list, a dict, bytes),
  is\_artifact\_type returns False and get\_parameter\_type returns the STRING default.
  Neither raises on any input at all, string or not.
\<close>

theorem classifiers_total:
  "(\<forall>v g. (\<forall>s. v \<noteq> PyStr s) \<longrightarrow>
            is_artifact_type v g = (Inr False, g)
          \<and> get_parameter_type v g = (Inr PrimitiveType_STRING, g))
   \<and> (\<forall>v g. \<exists>b. fst (is_artifact_type v g) = Inr b)
   \<and> (\<forall>v g. \<exists>p. fst (get_parameter_type v g) = Inr p)"
proof (intro conjI allI impI)
  fix v g
  assume "\<forall>s. v \<noteq> PyStr s"
  then have "\<not> isinstance_str v"
    by (simp add: not_str_cases)
  then show "is_artifact_type v g = (Inr False, g)"
    and "get_parameter_type v g = (Inr PrimitiveType_STRING, g)"
    by (simp_all add: is_artifact_type_def get_parameter_type_def)
next
  fix v g
  show "\<exists>b. fst (is_artifact_type v g) = Inr b"
  proof (cases "isinstance_str v")
    case True
    then obtain s where "v = PyStr s"
      by (cases v) simp_all
    then show ?thesis
      by (simp add: is_artifact_type_str)
  next
    case False
    then have "fst (is_artifact_type v g) = Inr False"
      by (simp add: is_artifact_type_def)
    then show ?thesis
      by (rule exI)
  qed
next
  fix v g
  show "\<exists>p. fst (get_parameter_type v g) = Inr p"
  proof (cases "isinstance_str v")
    case True
    then obtain s where "v = PyStr s"
      by (cases v) simp_all
    then show ?thesis
      by (simp add: get_parameter_type_str)
  next
    case False
    then have "fst (get_parameter_type v g) = Inr PrimitiveType_STRING"
      by (simp add: get_parameter_type_def)
    then show ?thesis
      by (rule exI)
  qed
qed

theorem classifiers_total_witness:
  "(\<forall>s. PyInt 3 \<noteq> PyStr s)
   \<and> is_artifact_type (PyInt 3) module_init = (Inr False, module_init)
   \<and> get_parameter_type (PyInt 3) module_init = (Inr PrimitiveType_STRING, module_init)
   \<and> (\<forall>s. PyNone \<noteq> PyStr s)
   \<and> is_artifact_type PyNone module_init = (Inr False, module_init)
   \<and> get_parameter_type PyNone module_init = (Inr PrimitiveType_STRING, module_init)
   \<and> (\<forall>s. PyDict [(PyStr ''JsonObject'', PyDict [])] \<noteq> PyStr s)
   \<and> is_artifact_type (PyDict [(PyStr ''JsonObject'', PyDict [])]) module_init =
        (Inr False, module_init)
   \<and> get_parameter_type (PyDict [(PyStr ''JsonObject'', PyDict [])]) module_init =
        (Inr PrimitiveType_STRING, module_init)
   \<and> (\<forall>s. PyBytes ''model'' \<noteq> PyStr s)
   \<and> is_artifact_type (PyBytes ''model'') module_init = (Inr False, module_init)
   \<and> get_parameter_type (PyBytes ''int'') module_init = (Inr PrimitiveType_STRING, module_init)"
proof -
  have d: "\<forall>s. PyBytes ''model'' \<noteq> PyStr s"
    by simp
  have e: "\<forall>s. PyBytes ''int'' \<noteq> PyStr s"
    by simp
  have a: "\<forall>s. PyInt 3 \<noteq> PyStr s"
    by simp
  have b: "\<forall>s. PyNone \<noteq> PyStr s"
    by simp
  have c: "\<forall>s. PyDict [(PyStr ''JsonObject'', PyDict [])] \<noteq> PyStr s"
    by simp
  note main = classifiers_total [THEN conjunct1, THEN spec, THEN spec, THEN mp]
  from a b c d main [OF a, of module_init] main [OF b, of module_init]
    main [OF c, of module_init] main [OF d, of module_init, THEN conjunct1]
    main [OF e, of module_init, THEN conjunct2]
  show ?thesis
    by (intro conjI) (erule conjunct1 conjunct2 | assumption)+
qed




text \<open>
  C7. The four operations are deterministic and leave the two tables alone: each call
  hands back the globals it received, so after any sequence of calls made from the
  module's initial state both tables still have their initial contents, and a call made
  after any such sequence returns what the same call returns in the initial state.
\<close>

theorem operations_effect_free:
  "(\<forall>v g. snd (is_artifact_type v g) = g)
   \<and> (\<forall>v g. snd (get_artifact_type_schema v g) = g)
   \<and> (\<forall>v g. snd (get_parameter_type v g) = g)
   \<and> (\<forall>n inputs g. snd (get_input_artifact_type_schema n inputs g) = g)
   \<and> (\<forall>cs. snd (run_calls cs module_init) = module_init)
   \<and> (\<forall>cs. ARTIFACT_TYPES_MAPPING (snd (run_calls cs module_init)) =
              ARTIFACT_TYPES_MAPPING module_init
           \<and> PARAMETER_TYPES_MAPPING (snd (run_calls cs module_init)) =
              PARAMETER_TYPES_MAPPING module_init)
   \<and> (\<forall>cs c. fst (invoke c (snd (run_calls cs module_init))) = fst (invoke c module_init))
   \<and> (\<forall>cs. fst (run_calls cs module_init) = map (\<lambda>c. fst (invoke c module_init)) cs)"
proof (intro conjI allI)
  fix v g
  show "snd (is_artifact_type v g) = g"
    by (rule snd_is_artifact_type)
  show "snd (get_artifact_type_schema v g) = g"
    by (rule snd_get_artifact_type_schema)
  show "snd (get_parameter_type v g) = g"
    by (rule snd_get_parameter_type)
next
  fix n inputs g
  show "snd (get_input_artifact_type_schema n inputs g) = g"
    by (rule snd_get_input_artifact_type_schema)
next
  fix cs
  show "snd (run_calls cs module_init) = module_init"
    by (simp add: run_calls_map)
  show "ARTIFACT_TYPES_MAPPING (snd (run_calls cs module_init)) =
          ARTIFACT_TYPES_MAPPING module_init"
    by (simp add: run_calls_map)
  show "PARAMETER_TYPES_MAPPING (snd (run_calls cs module_init)) =
          PARAMETER_TYPES_MAPPING module_init"
    by (simp add: run_calls_map)
  show "fst (run_calls cs module_init) = map (\<lambda>c. fst (invoke c module_init)) cs"
    by (simp add: run_calls_map)
next
  fix cs c
  show "fst (invoke c (snd (run_calls cs module_init))) = fst (invoke c module_init)"
    by (simp add: run_calls_map)
qed

text \<open>
  C8. For every string, is\_artifact\_type returns True if and only if
  get\_artifact\_type\_schema returns a schema document and not None: both look the
  lower-cased string up in the same table.
\<close>

theorem is_artifact_type_iff_schema:
  "(\<forall>s g. fst (is_artifact_type (PyStr s) g) = Inr True \<longleftrightarrow>
            (\<exists>doc. fst (get_artifact_type_schema (PyStr s) g) = Inr (Some doc)))
   \<and> (\<forall>s g. fst (is_artifact_type (PyStr s) g) = Inr False \<longleftrightarrow>
            fst (get_artifact_type_schema (PyStr s) g) = Inr None)"
proof (intro conjI allI)
  fix s g
  show "fst (is_artifact_type (PyStr s) g) = Inr True \<longleftrightarrow>
          (\<exists>doc. fst (get_artifact_type_schema (PyStr s) g) = Inr (Some doc))"
    by (simp add: is_artifact_type_def get_artifact_type_schema_def dict_contains_def
        dict_get_def and_then_def)
  show "fst (is_artifact_type (PyStr s) g) = Inr False \<longleftrightarrow>
          fst (get_artifact_type_schema (PyStr s) g) = Inr None"
    by (simp add: is_artifact_type_def get_artifact_type_schema_def dict_contains_def
        dict_get_def and_then_def)
qed

text \<open>
  C9. When the first Input Spec named input\_name has a type string whose lower-cased form
  is not a key of the Artifact Type Table, get\_input\_artifact\_type\_schema returns None
  whatever follows it in the list, also a later Input Spec of that name with a recognised
  type. The result is the one the caller gets from a list in which no Input Spec has
  that name.
\<close>

theorem get_input_artifact_type_schema_stops_at_first:
  "(\<forall>input_name (pre :: InputSpec list) c post t.
       (\<forall>p \<in> set pre. name p \<noteq> input_name) \<and> name c = input_name
       \<and> type c = PyStr t \<and> lower t \<notin> set artifact_keys \<longrightarrow>
         get_input_artifact_type_schema input_name (pre @ c # post) module_init =
           (Inr None, module_init)
       \<and> get_input_artifact_type_schema input_name (pre @ c # post) module_init =
           get_input_artifact_type_schema input_name pre module_init)"
proof (intro allI impI)
  fix input_name and pre :: "InputSpec list" and c :: InputSpec and post t
  assume h: "(\<forall>p \<in> set pre. name p \<noteq> input_name) \<and> name c = input_name
             \<and> type c = PyStr t \<and> lower t \<notin> set artifact_keys"
  then have "map_of (ARTIFACT_TYPES_MAPPING module_init) (lower t) = None"
    by (simp add: artifact_keys_def map_of_eq_None_iff)
  with h have c: "get_artifact_type_schema (type c) module_init = (Inr None, module_init)"
    by (simp add: get_artifact_type_schema_str)
  from h have skip: "\<And>rest. get_input_artifact_type_schema input_name (pre @ rest) module_init =
                       get_input_artifact_type_schema input_name rest module_init"
    by (induction pre) simp_all
  from h c have "get_input_artifact_type_schema input_name (c # post) module_init =
                   (Inr None, module_init)"
    by simp
  with skip [of "c # post"] skip [of "[]"]
  show "get_input_artifact_type_schema input_name (pre @ c # post) module_init =
           (Inr None, module_init)
       \<and> get_input_artifact_type_schema input_name (pre @ c # post) module_init =
           get_input_artifact_type_schema input_name pre module_init"
    by simp
qed

theorem get_input_artifact_type_schema_stops_at_first_witness:
  "map name [\<lparr> name = ''b'', type = PyStr ''Dataset'' \<rparr>] = [''b'']
   \<and> name \<lparr> name = ''a'', type = PyStr ''Integer'' \<rparr> = ''a''
   \<and> type \<lparr> name = ''a'', type = PyStr ''Integer'' \<rparr> = PyStr ''Integer''
   \<and> lower ''Integer'' \<notin> set artifact_keys
   \<and> get_input_artifact_type_schema ''a''
        ([\<lparr> name = ''b'', type = PyStr ''Dataset'' \<rparr>] @
         \<lparr> name = ''a'', type = PyStr ''Integer'' \<rparr> # [\<lparr> name = ''a'', type = PyStr ''Model'' \<rparr>])
        module_init = (Inr None, module_init)
   \<and> fst (get_artifact_type_schema (PyStr ''Model'') module_init) =
        Inr (Some (schema_document ''kfp.Model''))"
proof -
  have h: "(\<forall>p \<in> set [\<lparr> name = ''b'', type = PyStr ''Dataset'' \<rparr>]. name p \<noteq> ''a'')
           \<and> name \<lparr> name = ''a'', type = PyStr ''Integer'' \<rparr> = ''a''
           \<and> type \<lparr> name = ''a'', type = PyStr ''Integer'' \<rparr> = PyStr ''Integer''
           \<and> lower ''Integer'' \<notin> set artifact_keys"
    by (simp add: lower_examples artifact_keys_eq)
  have later: "fst (get_artifact_type_schema (PyStr ''Model'') module_init) =
                 Inr (Some (schema_document ''kfp.Model''))"
    by (simp add: get_artifact_type_schema_str lower_examples artifact_table)
  from get_input_artifact_type_schema_stops_at_first [rule_format, OF h,
      of "[\<lparr> name = ''a'', type = PyStr ''Model'' \<rparr>]"]
  have "get_input_artifact_type_schema ''a''
        ([\<lparr> name = ''b'', type = PyStr ''Dataset'' \<rparr>] @
         \<lparr> name = ''a'', type = PyStr ''Integer'' \<rparr> # [\<lparr> name = ''a'', type = PyStr ''Model'' \<rparr>])
        module_init = (Inr None, module_init)"
    by (rule conjunct1)
  with h later show ?thesis
    by simp
qed




end
